theory Spec2Isabelle
  imports Complex_Main "HOL-Library.Log_Nat" "HOL-Library.AList"
begin

section \<open>Python values used by engine\_wrapper.py\<close>

text \<open>
  The wrapper is a thin layer over the python-chess engine API. Its own code handles
  configuration dictionaries, integers (milliseconds, ratings), strings and \<open>None\<close>.
  A dictionary is an association list in insertion order with distinct keys:
  \<open>map_of\<close> is the lookup, \<open>AList.update\<close> is \<open>d[k] = v\<close> (an existing key keeps its
  place, a new key goes last) and \<open>AList.delete\<close> removes a key.
  Every exception that the wrapper's own statements can raise is a value of \<open>py_error\<close>.
\<close>

type_synonym ('k, 'v) dict = "('k \<times> 'v) list"

datatype py_error =
    TypeError
  | KeyError string
  | AttributeError string
  | ZeroDivisionError
  | OverflowError

text \<open>
  Configuration values, as the YAML loader delivers them: \<open>None\<close>, booleans, integers,
  strings and nested blocks. Floats and lists, which the wrapper would only hand through
  to the engine, are left out.
\<close>

datatype py_value =
    PNone
  | PBool bool
  | PInt int
  | PStr string
  | PDict "(string \<times> py_value) list"

fun truthy :: "py_value \<Rightarrow> bool" where
  "truthy PNone = False"
| "truthy (PBool b) = b"
| "truthy (PInt i) = (i \<noteq> 0)"
| "truthy (PStr s) = (s \<noteq> [])"
| "truthy (PDict d) = (d \<noteq> [])"

text \<open>\<open>v[k]\<close> with a string key: only a dictionary can be indexed by a string.\<close>

fun py_getitem :: "py_value \<Rightarrow> string \<Rightarrow> py_error + py_value" where
  "py_getitem (PDict d) k = (case map_of d k of None \<Rightarrow> Inl (KeyError k) | Some v \<Rightarrow> Inr v)"
| "py_getitem v k = Inl TypeError"

text \<open>\<open>d.get(k, default)\<close> and the value of \<open>d.pop(k, default)\<close>, on a dictionary.\<close>

definition dict_get :: "(string, 'v) dict \<Rightarrow> string \<Rightarrow> 'v \<Rightarrow> 'v" where
  "dict_get d k dflt = (case map_of d k of None \<Rightarrow> dflt | Some v \<Rightarrow> v)"

text \<open>\<open>x or {}\<close>.\<close>

definition or_empty_dict :: "py_value \<Rightarrow> py_value" where
  "or_empty_dict x = (if truthy x then x else PDict [])"

subsection \<open>Rendering integers\<close>

text \<open>\<open>str(i)\<close> for an integer: decimal digits, with a minus sign for a negative number.\<close>

definition digit_char :: "nat \<Rightarrow> char" where
  "digit_char n = ''0123456789'' ! n"

fun str_nat :: "nat \<Rightarrow> string" where
  "str_nat n = (if n < 10 then [digit_char n] else str_nat (n div 10) @ [digit_char (n mod 10)])"

declare str_nat.simps [simp del]

definition str_int :: "int \<Rightarrow> string" where
  "str_int i = (if i < 0 then CHR ''-'' # str_nat (nat (- i)) else str_nat (nat i))"

subsection \<open>Strings\<close>

text \<open>\<open>s.split(sep)\<close> for a one-character separator: the empty string gives one empty piece.\<close>

fun split_on :: "char \<Rightarrow> string \<Rightarrow> string list" where
  "split_on sep [] = [[]]"
| "split_on sep (c # cs) =
     (if c = sep then [] # split_on sep cs
      else (case split_on sep cs of [] \<Rightarrow> [[c]] | w # ws \<Rightarrow> (c # w) # ws))"

text \<open>
  \<open>os.path.join(a, b)\<close> for two components, as \<open>posixpath\<close> defines it: an absolute second
  component replaces the first, otherwise the two are joined with one separator.
\<close>

definition os_path_join :: "string \<Rightarrow> string \<Rightarrow> string" where
  "os_path_join a b =
     (if take 1 b = ''/'' then b
      else if a = [] \<or> last a = CHR ''/'' then a @ b
      else a @ ''/'' @ b)"

subsection \<open>Integer division and floats\<close>

text \<open>
  \<open>a // b\<close> on integers is floor division, which is \<open>div\<close> on \<open>int\<close>. \<open>a / b\<close> on
  integers is true division: the result is a float, the IEEE 754 double nearest to the
  exact quotient, ties going to the even mantissa; a quotient beyond the largest double
  raises OverflowError and a zero divisor raises ZeroDivisionError. A finite double is
  modelled by its value, a rational of the form \<open>m * 2 ^ e\<close> with \<open>\<bar>m\<bar> \<le> 2 ^ 53\<close>.
\<close>

definition round_half_even :: "int \<Rightarrow> int \<Rightarrow> int" where
  "round_half_even n d =
     (let f = n div d; r = n mod d
      in if 2 * r < d then f else if d < 2 * r then f + 1 else if even f then f else f + 1)"

text \<open>The integer part of the binary logarithm of \<open>a / b\<close>, for positive \<open>a\<close> and \<open>b\<close>.\<close>

definition floor_log2 :: "int \<Rightarrow> int \<Rightarrow> int" where
  "floor_log2 a b =
     (let d = bitlen a - bitlen b
      in if b * 2 ^ nat d \<le> a * 2 ^ nat (- d) then d else d - 1)"

definition nearest_double :: "int \<Rightarrow> int \<Rightarrow> py_error + rat" where
  "nearest_double a b =
     (let e = max (floor_log2 a b - 52) (- 1074);
          m = round_half_even (a * 2 ^ nat (- e)) (b * 2 ^ nat e)
      in if 971 < e \<or> (e = 971 \<and> m = 2 ^ 53) then Inl OverflowError
         else Inr (of_int m * 2 ^ nat e / 2 ^ nat (- e)))"

definition py_truediv :: "int \<Rightarrow> int \<Rightarrow> py_error + rat" where
  "py_truediv a b =
     (if b = 0 then Inl ZeroDivisionError
      else if a = 0 then Inr 0
      else (case nearest_double \<bar>a\<bar> \<bar>b\<bar> of
              Inl err \<Rightarrow> Inl err
            | Inr x \<Rightarrow> Inr (if (a < 0) = (b < 0) then x else - x)))"

datatype py_num = PyInt int | PyFloat rat

text \<open>\<open>x == y\<close> on numbers compares the exact values, also between an int and a float.\<close>

fun py_num_eq :: "py_num \<Rightarrow> py_num \<Rightarrow> bool" where
  "py_num_eq (PyInt i) (PyInt j) = (i = j)"
| "py_num_eq (PyInt i) (PyFloat y) = (of_int i = y)"
| "py_num_eq (PyFloat x) (PyInt j) = (x = of_int j)"
| "py_num_eq (PyFloat x) (PyFloat y) = (x = y)"

section \<open>The managed-option filter\<close>

text \<open>
  \<^verbatim>\<open>
  def remove_managed_options(config):
      def is_managed(key):
          return chess.engine.Option(key, None, None, None, None, None).is_managed()
      return {name: value for (name, value) in config.items() if not is_managed(name)}
  \<close>
  \<open>Option.is_managed\<close> belongs to the python-chess library, so the classifier is a
  parameter of the model. The comprehension builds a new dictionary from the items of
  \<open>config\<close>, in their order.
\<close>

definition remove_managed_options :: "(string \<Rightarrow> bool) \<Rightarrow> (string, 'v) dict \<Rightarrow> (string, 'v) dict" where
  "remove_managed_options is_managed config =
     [(name, value). (name, value) \<leftarrow> config, \<not> is_managed name]"

text \<open>
  The classifier of python-chess, for concrete runs: a name is managed when its lower-case
  form is one of four reserved names. Only ASCII letters are folded here.
\<close>

definition lower_char :: "char \<Rightarrow> char" where
  "lower_char c =
     (case map_of (zip ''ABCDEFGHIJKLMNOPQRSTUVWXYZ'' ''abcdefghijklmnopqrstuvwxyz'') c of
        None \<Rightarrow> c
      | Some l \<Rightarrow> l)"

definition chess_is_managed :: "string \<Rightarrow> bool" where
  "chess_is_managed name =
     (map lower_char name \<in> set [''uci_chess960'', ''uci_variant'', ''multipv'', ''ponder''])"

section \<open>The engine process\<close>

text \<open>
  The python-chess \<open>SimpleEngine\<close> is an external collaborator. The model keeps what the
  wrapper can observe of it: the calls made on the handle, oldest first, the names in
  \<open>protocol.config\<close> (UCI) and the negotiated \<open>protocol.features\<close> (XBoard). The process
  always answers: a failure of the process itself is outside the model, so the errors of
  the model are those raised by the wrapper's own statements. What the engine answers to
  \<open>play\<close> is a parameter, a function of the calls it has received.
\<close>

type_synonym board = string
type_synonym move = string

record limit =
  time :: "py_num option"
  depth :: "py_value option"
  nodes :: "py_value option"
  white_clock :: "py_num option"
  black_clock :: "py_num option"
  white_inc :: "py_num option"
  black_inc :: "py_num option"

definition Limit :: limit where
  "Limit = \<lparr>time = None, depth = None, nodes = None, white_clock = None, black_clock = None,
            white_inc = None, black_inc = None\<rparr>"

definition opt_num_eq :: "py_num option \<Rightarrow> py_num option \<Rightarrow> bool" where
  "opt_num_eq x y =
     (case (x, y) of
        (None, None) \<Rightarrow> True
      | (Some a, Some b) \<Rightarrow> py_num_eq a b
      | _ \<Rightarrow> False)"

text \<open>Equality of two limits, field by field, as the dataclass compares them.\<close>

definition limit_eq :: "limit \<Rightarrow> limit \<Rightarrow> bool" where
  "limit_eq l r =
     (opt_num_eq (time l) (time r) \<and> depth l = depth r \<and> nodes l = nodes r
      \<and> opt_num_eq (white_clock l) (white_clock r) \<and> opt_num_eq (black_clock l) (black_clock r)
      \<and> opt_num_eq (white_inc l) (white_inc r) \<and> opt_num_eq (black_inc l) (black_inc r))"

text \<open>
  The values of the info dictionary of a search are integers (depth, nodes, nps) or
  objects of the library (score), which are kept as the text that \<open>str\<close> gives for them.
\<close>

datatype info_value = InfoInt int | InfoText string

fun info_str :: "info_value \<Rightarrow> string" where
  "info_str (InfoInt i) = str_int i"
| "info_str (InfoText s) = s"

type_synonym info_dict = "(string, info_value) dict"

record play_result =
  result_move :: "move option"
  result_ponder :: "move option"
  result_info :: info_dict

text \<open>An XBoard feature value is an integer when it parses as one, else a string.\<close>

datatype feature_value = FInt int | FStr string

fun feature_truthy :: "feature_value \<Rightarrow> bool" where
  "feature_truthy (FInt i) = (i \<noteq> 0)"
| "feature_truthy (FStr s) = (s \<noteq> [])"

datatype engine_call =
    Configure "(string, py_value) dict"
  | SendLine string
  | Play board limit bool
  | Quit

record simple_engine =
  calls :: "engine_call list"
  protocol_config :: "string set"
  features :: "(string, feature_value) dict"

type_synonym engine_reply = "engine_call list \<Rightarrow> play_result"

definition engine_configure :: "(string, py_value) dict \<Rightarrow> simple_engine \<Rightarrow> simple_engine" where
  "engine_configure options e = e\<lparr>calls := calls e @ [Configure options]\<rparr>"

definition send_line :: "string \<Rightarrow> simple_engine \<Rightarrow> simple_engine" where
  "send_line line e = e\<lparr>calls := calls e @ [SendLine line]\<rparr>"

definition engine_play ::
  "engine_reply \<Rightarrow> simple_engine \<Rightarrow> board \<Rightarrow> limit \<Rightarrow> bool \<Rightarrow> play_result \<times> simple_engine" where
  "engine_play reply e b l p =
     (let e' = e\<lparr>calls := calls e @ [Play b l p]\<rparr> in (reply (calls e'), e'))"

definition engine_quit :: "simple_engine \<Rightarrow> simple_engine" where
  "engine_quit e = e\<lparr>calls := calls e @ [Quit]\<rparr>"

text \<open>
  Starting a process: \<open>popen_uci\<close> and \<open>popen_xboard\<close> are parameters of type \<open>popen\<close>,
  from the command vector and the silence flag to the handle of the started engine.
\<close>

type_synonym popen = "string list \<Rightarrow> bool \<Rightarrow> simple_engine"

section \<open>Game metadata\<close>

record player =
  name :: "string option"
  rating :: "int option"
  title :: "string option"

record game =
  opponent :: player
  me :: player
  clock_initial :: int
  clock_increment :: int

text \<open>The truth value of a nullable string: \<open>None\<close> and the empty string are false.\<close>

definition str_truthy :: "string option \<Rightarrow> bool" where
  "str_truthy s = (case s of None \<Rightarrow> False | Some t \<Rightarrow> t \<noteq> [])"

section \<open>Statistics\<close>

text \<open>
  \<^verbatim>\<open>
  def get_handler_stats(info, stats):
      stats_str = []
      for stat in stats:
          if stat in info:
              stats_str.append("{}: {}".format(stat, info[stat]))
      return stats_str
  \<close>
\<close>

fun get_handler_stats_loop :: "info_dict \<Rightarrow> string list \<Rightarrow> string list \<Rightarrow> string list" where
  "get_handler_stats_loop info [] stats_str = stats_str"
| "get_handler_stats_loop info (stat # stats) stats_str =
     (case map_of info stat of
        None \<Rightarrow> get_handler_stats_loop info stats stats_str
      | Some v \<Rightarrow> get_handler_stats_loop info stats (stats_str @ [stat @ '': '' @ info_str v]))"

definition get_handler_stats :: "info_dict \<Rightarrow> string list \<Rightarrow> string list" where
  "get_handler_stats info stats = get_handler_stats_loop info stats []"

section \<open>The adapters\<close>

text \<open>
  \<open>EngineWrapper\<close> is the base class; \<open>UCIEngine\<close> and \<open>XBoardEngine\<close> extend it. An
  attribute that \<open>__init__\<close> does not assign (\<open>minutes\<close>, \<open>seconds\<close> and \<open>inc\<close> of the XBoard
  adapter) is \<open>None\<close> until \<open>set_time_control\<close> assigns it; reading it before raises
  AttributeError.
\<close>

record engine_wrapper =
  engine :: simple_engine
  last_move_info :: info_dict

record uci_engine = engine_wrapper +
  go_commands :: py_value

record xboard_engine = engine_wrapper +
  time_control_sent :: bool
  minutes :: "int option"
  seconds :: "int option"
  inc :: "int option"

datatype adapter = UCIEngine uci_engine | XBoardEngine xboard_engine

subsection \<open>UCIEngine\<close>

text \<open>
  \<^verbatim>\<open>
  def __init__(self, commands, options, silence_stderr=False):
      self.go_commands = options.pop("go_commands", {}) or {}
      self.engine = chess.engine.SimpleEngine.popen_uci(commands, stderr=... if silence_stderr else None)
      self.engine.configure(options)
      self.last_move_info = {}
  \<close>
\<close>

definition uci_init ::
  "popen \<Rightarrow> string list \<Rightarrow> (string, py_value) dict \<Rightarrow> py_value \<Rightarrow> uci_engine" where
  "uci_init popen_uci commands options silence_stderr =
     (let go = or_empty_dict (dict_get options ''go_commands'' (PDict []));
          options1 = AList.delete ''go_commands'' options;
          e = popen_uci commands (truthy silence_stderr)
      in \<lparr>engine = engine_configure options1 e, last_move_info = [], go_commands = go\<rparr>)"

text \<open>
  \<^verbatim>\<open>
  def first_search(self, board, movetime):
      result = self.engine.play(board, chess.engine.Limit(time=movetime / 1000), info=chess.engine.INFO_ALL)
      self.last_move_info = result.info
      return result.move
  \<close>
  The limit is built before the engine is called, so an OverflowError of the division
  leaves the adapter as it was.
\<close>

definition uci_first_search_limit :: "int \<Rightarrow> py_error + limit" where
  "uci_first_search_limit movetime =
     (case py_truediv movetime 1000 of
        Inl err \<Rightarrow> Inl err
      | Inr t \<Rightarrow> Inr (Limit\<lparr>time := Some (PyFloat t)\<rparr>))"

definition uci_first_search ::
  "engine_reply \<Rightarrow> uci_engine \<Rightarrow> board \<Rightarrow> int \<Rightarrow> (py_error + move option) \<times> uci_engine" where
  "uci_first_search reply self board movetime =
     (case uci_first_search_limit movetime of
        Inl err \<Rightarrow> (Inl err, self)
      | Inr l \<Rightarrow>
          (let (result, e) = engine_play reply (engine self) board l False
           in (Inr (result_move result), self\<lparr>engine := e, last_move_info := result_info result\<rparr>)))"

definition uci_get_stats :: "uci_engine \<Rightarrow> string list" where
  "uci_get_stats self = get_handler_stats (last_move_info self) [''depth'', ''nps'', ''nodes'', ''score'']"

text \<open>
  \<^verbatim>\<open>
  def get_opponent_info(self, game):
      name = game.opponent.name
      if name and "UCI_Opponent" in self.engine.protocol.config:
          rating = game.opponent.rating if game.opponent.rating is not None else "none"
          title = game.opponent.title if game.opponent.title else "none"
          player_type = "computer" if title == "BOT" else "human"
          self.engine.configure({"UCI_Opponent": f"{title} {rating} {player_type} {name}"})
  \<close>
\<close>

definition uci_opponent_value :: "player \<Rightarrow> string \<Rightarrow> string" where
  "uci_opponent_value opp nm =
     (let rating_str = (case rating opp of None \<Rightarrow> ''none'' | Some r \<Rightarrow> str_int r);
          title_str = (case title opp of None \<Rightarrow> ''none'' | Some t \<Rightarrow> if t \<noteq> [] then t else ''none'');
          player_type = (if title_str = ''BOT'' then ''computer'' else ''human'')
      in title_str @ '' '' @ rating_str @ '' '' @ player_type @ '' '' @ nm)"

definition uci_get_opponent_info :: "uci_engine \<Rightarrow> game \<Rightarrow> uci_engine" where
  "uci_get_opponent_info self g =
     (case name (opponent g) of
        None \<Rightarrow> self
      | Some nm \<Rightarrow>
          if nm \<noteq> [] \<and> ''UCI_Opponent'' \<in> protocol_config (engine self)
          then self\<lparr>engine := engine_configure
                  [(''UCI_Opponent'', PStr (uci_opponent_value (opponent g) nm))] (engine self)\<rparr>
          else self)"

subsection \<open>XBoardEngine\<close>

text \<open>
  \<^verbatim>\<open>
  def __init__(self, commands, options=None, silence_stderr=False):
      self.engine = chess.engine.SimpleEngine.popen_xboard(commands, stderr=... if silence_stderr else None)
      egt_paths = options.pop("egtpath", {}) or {}
      features = self.engine.protocol.features
      egt_types_from_engine = features["egt"].split(",") if "egt" in features else []
      for egt_type in egt_types_from_engine:
          options[f"egtpath {egt_type}"] = egt_paths[egt_type]
      self.engine.configure(options)
      self.last_move_info = {}
      self.time_control_sent = False
  \<close>
  An integer feature value has no \<open>split\<close>; \<open>egt_paths[egt_type]\<close> raises KeyError for a
  type without a path, and TypeError when \<open>egt_paths\<close> is not a dictionary.
\<close>

definition egt_types_from_engine :: "(string, feature_value) dict \<Rightarrow> py_error + string list" where
  "egt_types_from_engine fs =
     (case map_of fs ''egt'' of
        None \<Rightarrow> Inr []
      | Some (FStr s) \<Rightarrow> Inr (split_on CHR '','' s)
      | Some (FInt i) \<Rightarrow> Inl (AttributeError ''split''))"

fun set_egtpath_options ::
  "py_value \<Rightarrow> string list \<Rightarrow> (string, py_value) dict \<Rightarrow> py_error + (string, py_value) dict" where
  "set_egtpath_options egt_paths [] options = Inr options"
| "set_egtpath_options egt_paths (egt_type # egt_types) options =
     (case py_getitem egt_paths egt_type of
        Inl err \<Rightarrow> Inl err
      | Inr path \<Rightarrow>
          set_egtpath_options egt_paths egt_types
            (AList.update (''egtpath '' @ egt_type) path options))"

definition xboard_init ::
  "popen \<Rightarrow> string list \<Rightarrow> (string, py_value) dict \<Rightarrow> py_value \<Rightarrow> py_error + xboard_engine" where
  "xboard_init popen_xboard commands options silence_stderr =
     (let e = popen_xboard commands (truthy silence_stderr);
          egt_paths = or_empty_dict (dict_get options ''egtpath'' (PDict []));
          options1 = AList.delete ''egtpath'' options
      in case egt_types_from_engine (features e) of
           Inl err \<Rightarrow> Inl err
         | Inr egt_types \<Rightarrow>
             (case set_egtpath_options egt_paths egt_types options1 of
                Inl err \<Rightarrow> Inl err
              | Inr options2 \<Rightarrow>
                  Inr \<lparr>engine = engine_configure options2 e, last_move_info = [],
                       time_control_sent = False, minutes = None, seconds = None, inc = None\<rparr>))"

text \<open>
  \<^verbatim>\<open>
  def set_time_control(self, game):
      self.minutes = game.clock_initial // 1000 // 60
      self.seconds = game.clock_initial // 1000 % 60
      self.inc = game.clock_increment // 1000

  def send_time(self):
      self.engine.protocol.send_line(f"level 0 {self.minutes}:{self.seconds} {self.inc}")
      self.time_control_sent = True
  \<close>
\<close>

definition xboard_set_time_control :: "xboard_engine \<Rightarrow> game \<Rightarrow> xboard_engine" where
  "xboard_set_time_control self g =
     self\<lparr>minutes := Some (clock_initial g div 1000 div 60),
          seconds := Some (clock_initial g div 1000 mod 60),
          inc := Some (clock_increment g div 1000)\<rparr>"

definition level_line :: "int \<Rightarrow> int \<Rightarrow> int \<Rightarrow> string" where
  "level_line m s i = ''level 0 '' @ str_int m @ '':'' @ str_int s @ '' '' @ str_int i"

definition xboard_send_time :: "xboard_engine \<Rightarrow> (py_error + unit) \<times> xboard_engine" where
  "xboard_send_time self =
     (case minutes self of
        None \<Rightarrow> (Inl (AttributeError ''minutes''), self)
      | Some m \<Rightarrow>
          (case seconds self of
             None \<Rightarrow> (Inl (AttributeError ''seconds''), self)
           | Some s \<Rightarrow>
               (case inc self of
                  None \<Rightarrow> (Inl (AttributeError ''inc''), self)
                | Some i \<Rightarrow>
                    (Inr (), self\<lparr>engine := send_line (level_line m s i) (engine self),
                                  time_control_sent := True\<rparr>))))"

text \<open>
  \<^verbatim>\<open>
  def first_search(self, board, movetime):
      result = self.engine.play(board, chess.engine.Limit(time=movetime // 1000), info=chess.engine.INFO_ALL)
      self.last_move_info = result.info
      return result.move
  \<close>
\<close>

definition xboard_first_search_limit :: "int \<Rightarrow> limit" where
  "xboard_first_search_limit movetime = Limit\<lparr>time := Some (PyInt (movetime div 1000))\<rparr>"

definition xboard_first_search ::
  "engine_reply \<Rightarrow> xboard_engine \<Rightarrow> board \<Rightarrow> int \<Rightarrow> move option \<times> xboard_engine" where
  "xboard_first_search reply self board movetime =
     (let (result, e) = engine_play reply (engine self) board (xboard_first_search_limit movetime) False
      in (result_move result, self\<lparr>engine := e, last_move_info := result_info result\<rparr>))"

text \<open>
  \<^verbatim>\<open>
  def search_with_ponder(self, board, wtime, btime, winc, binc, ponder=False):
      if not self.time_control_sent:
          self.send_time()
      time_limit = chess.engine.Limit(white_clock=wtime / 1000, black_clock=btime / 1000)
      result = self.engine.play(board, time_limit, info=chess.engine.INFO_ALL, ponder=ponder)
      self.last_move_info = result.info
      return result.move, None
  \<close>
\<close>

definition xboard_search_limit :: "int \<Rightarrow> int \<Rightarrow> py_error + limit" where
  "xboard_search_limit wtime btime =
     (case py_truediv wtime 1000 of
        Inl err \<Rightarrow> Inl err
      | Inr w \<Rightarrow>
          (case py_truediv btime 1000 of
             Inl err \<Rightarrow> Inl err
           | Inr b \<Rightarrow> Inr (Limit\<lparr>white_clock := Some (PyFloat w), black_clock := Some (PyFloat b)\<rparr>)))"

definition xboard_search_with_ponder ::
  "engine_reply \<Rightarrow> xboard_engine \<Rightarrow> board \<Rightarrow> int \<Rightarrow> int \<Rightarrow> int \<Rightarrow> int \<Rightarrow> bool
     \<Rightarrow> (py_error + move option \<times> move option) \<times> xboard_engine" where
  "xboard_search_with_ponder reply self board wtime btime winc binc ponder =
     (let (sent, self1) =
            (if \<not> time_control_sent self then xboard_send_time self else (Inr (), self))
      in case sent of
           Inl err \<Rightarrow> (Inl err, self1)
         | Inr u \<Rightarrow>
             (case xboard_search_limit wtime btime of
                Inl err \<Rightarrow> (Inl err, self1)
              | Inr time_limit \<Rightarrow>
                  (let (result, e) = engine_play reply (engine self1) board time_limit ponder
                   in (Inr (result_move result, None),
                       self1\<lparr>engine := e, last_move_info := result_info result\<rparr>))))"

definition xboard_get_stats :: "xboard_engine \<Rightarrow> string list" where
  "xboard_get_stats self = get_handler_stats (last_move_info self) [''depth'', ''nodes'', ''score'']"

text \<open>
  \<^verbatim>\<open>
  def get_opponent_info(self, game):
      if game.opponent.name and self.engine.protocol.features.get("name", True):
          title = game.opponent.title + " " if game.opponent.title else ""
          self.engine.protocol.send_line(f"name {title}{game.opponent.name}")
      if game.me.rating is not None and game.opponent.rating is not None:
          self.engine.protocol.send_line(f"rating {game.me.rating} {game.opponent.rating}")
      if game.opponent.title == "BOT":
          self.engine.protocol.send_line("computer")
  \<close>
\<close>

definition name_feature :: "(string, feature_value) dict \<Rightarrow> bool" where
  "name_feature fs = (case map_of fs ''name'' of None \<Rightarrow> True | Some v \<Rightarrow> feature_truthy v)"

definition name_line :: "player \<Rightarrow> string \<Rightarrow> string" where
  "name_line opp nm =
     (let title_str = (case title opp of None \<Rightarrow> [] | Some t \<Rightarrow> if t \<noteq> [] then t @ '' '' else [])
      in ''name '' @ title_str @ nm)"

definition rating_line :: "int \<Rightarrow> int \<Rightarrow> string" where
  "rating_line mine theirs = ''rating '' @ str_int mine @ '' '' @ str_int theirs"

definition xboard_send_name :: "game \<Rightarrow> simple_engine \<Rightarrow> simple_engine" where
  "xboard_send_name g e =
     (case name (opponent g) of
        None \<Rightarrow> e
      | Some nm \<Rightarrow>
          if nm \<noteq> [] \<and> name_feature (features e) then send_line (name_line (opponent g) nm) e else e)"

definition xboard_send_rating :: "game \<Rightarrow> simple_engine \<Rightarrow> simple_engine" where
  "xboard_send_rating g e =
     (case (rating (me g), rating (opponent g)) of
        (Some mine, Some theirs) \<Rightarrow> send_line (rating_line mine theirs) e
      | _ \<Rightarrow> e)"

definition xboard_send_computer :: "game \<Rightarrow> simple_engine \<Rightarrow> simple_engine" where
  "xboard_send_computer g e =
     (if title (opponent g) = Some ''BOT'' then send_line ''computer'' e else e)"

definition xboard_get_opponent_info :: "xboard_engine \<Rightarrow> game \<Rightarrow> xboard_engine" where
  "xboard_get_opponent_info self g =
     self\<lparr>engine := xboard_send_computer g (xboard_send_rating g (xboard_send_name g (engine self)))\<rparr>"

section \<open>create\_engine\<close>

text \<open>
  \<^verbatim>\<open>
  @backoff.on_exception(backoff.expo, BaseException, max_time=120)
  def create_engine(config):
      cfg = config["engine"]
      engine_path = os.path.join(cfg["dir"], cfg["name"])
      engine_type = cfg.get("protocol")
      engine_options = cfg.get("engine_options")
      commands = [engine_path]
      if engine_options:
          for k, v in engine_options.items():
              commands.append("--{}={}".format(k, v))
      silence_stderr = cfg.get("silence_stderr", False)
      Engine = XBoardEngine if engine_type == "xboard" else UCIEngine
      options = remove_managed_options(cfg.get(engine_type + "_options", {}) or {})
      return Engine(commands, options, silence_stderr)
  \<close>
  The model is one attempt of the decorated function: the decorator calls it again while
  it raises and the 120 seconds are not over, then lets the exception through. How a flag
  value is rendered by \<open>format\<close> is the parameter \<open>str_of\<close>.
\<close>

definition engine_path_of :: "py_value \<Rightarrow> py_error + string" where
  "engine_path_of cfg =
     (case py_getitem cfg ''dir'' of
        Inl err \<Rightarrow> Inl err
      | Inr d \<Rightarrow>
          (case py_getitem cfg ''name'' of
             Inl err \<Rightarrow> Inl err
           | Inr n \<Rightarrow>
               (case (d, n) of
                  (PStr a, PStr b) \<Rightarrow> Inr (os_path_join a b)
                | _ \<Rightarrow> Inl TypeError)))"

definition engine_commands ::
  "(py_value \<Rightarrow> string) \<Rightarrow> string \<Rightarrow> py_value \<Rightarrow> py_error + string list" where
  "engine_commands str_of engine_path engine_options =
     (if truthy engine_options
      then (case engine_options of
              PDict items \<Rightarrow> Inr (engine_path # map (\<lambda>(k, v). ''--'' @ k @ ''='' @ str_of v) items)
            | _ \<Rightarrow> Inl (AttributeError ''items''))
      else Inr [engine_path])"

definition options_key :: "py_value \<Rightarrow> py_error + string" where
  "options_key engine_type =
     (case engine_type of PStr s \<Rightarrow> Inr (s @ ''_options'') | _ \<Rightarrow> Inl TypeError)"

definition create_engine ::
  "(py_value \<Rightarrow> string) \<Rightarrow> (string \<Rightarrow> bool) \<Rightarrow> popen \<Rightarrow> popen \<Rightarrow> (string, py_value) dict
     \<Rightarrow> py_error + adapter" where
  "create_engine str_of is_managed popen_uci popen_xboard config =
     (case map_of config ''engine'' of
        None \<Rightarrow> Inl (KeyError ''engine'')
      | Some cfg \<Rightarrow>
          (case engine_path_of cfg of
             Inl err \<Rightarrow> Inl err
           | Inr engine_path \<Rightarrow>
               (case cfg of
                  PDict c \<Rightarrow>
                    (let engine_type = dict_get c ''protocol'' PNone;
                         engine_options = dict_get c ''engine_options'' PNone
                     in case engine_commands str_of engine_path engine_options of
                          Inl err \<Rightarrow> Inl err
                        | Inr commands \<Rightarrow>
                            (let silence_stderr = dict_get c ''silence_stderr'' (PBool False)
                             in case options_key engine_type of
                                  Inl err \<Rightarrow> Inl err
                                | Inr key \<Rightarrow>
                                    (case or_empty_dict (dict_get c key (PDict [])) of
                                       PDict block \<Rightarrow>
                                         (let options = remove_managed_options is_managed block
                                          in if engine_type = PStr ''xboard''
                                             then map_sum id XBoardEngine
                                                    (xboard_init popen_xboard commands options silence_stderr)
                                             else Inr (UCIEngine
                                                    (uci_init popen_uci commands options silence_stderr)))
                                     | _ \<Rightarrow> Inl (AttributeError ''items''))))
                | _ \<Rightarrow> Inl TypeError)))"

section \<open>Sequences of searches\<close>

text \<open>
  A caller that issues one \<open>search_with_ponder\<close> after the other on the same XBoard
  adapter, whatever each call returns or raises. An element holds the arguments of one
  call: board, wtime, btime, winc, binc, ponder.
\<close>

type_synonym search_args = "board \<times> int \<times> int \<times> int \<times> int \<times> bool"

fun search_all :: "engine_reply \<Rightarrow> xboard_engine \<Rightarrow> search_args list \<Rightarrow> xboard_engine" where
  "search_all reply self [] = self"
| "search_all reply self ((board, wtime, btime, winc, binc, ponder) # rest) =
     search_all reply (snd (xboard_search_with_ponder reply self board wtime btime winc binc ponder)) rest"

section \<open>What a call sends\<close>

text \<open>
  The calls that an operation adds to the handle: those on the handle after it, less
  those that were there before it.
\<close>

definition lines_sent :: "simple_engine \<Rightarrow> simple_engine \<Rightarrow> engine_call list" where
  "lines_sent before after = drop (length (calls before)) (calls after)"

text \<open>
  The three informational lines of the XBoard adapter, each as the list of lines that its
  own \<open>if\<close> statement sends (none or one), and the shape that tells them apart.
\<close>

definition name_lines :: "game \<Rightarrow> (string, feature_value) dict \<Rightarrow> string list" where
  "name_lines g fs =
     (case name (opponent g) of
        None \<Rightarrow> []
      | Some nm \<Rightarrow> if nm \<noteq> [] \<and> name_feature fs then [name_line (opponent g) nm] else [])"

definition rating_lines :: "game \<Rightarrow> string list" where
  "rating_lines g =
     (case rating (me g) of
        None \<Rightarrow> []
      | Some mine \<Rightarrow>
          (case rating (opponent g) of None \<Rightarrow> [] | Some theirs \<Rightarrow> [rating_line mine theirs]))"

definition computer_lines :: "game \<Rightarrow> string list" where
  "computer_lines g = (if title (opponent g) = Some ''BOT'' then [''computer''] else [])"

definition is_name_line :: "string \<Rightarrow> bool" where
  "is_name_line l = (take 5 l = ''name '')"

definition is_rating_line :: "string \<Rightarrow> bool" where
  "is_rating_line l = (take 7 l = ''rating '')"

section \<open>Example values\<close>

definition magnus :: player where
  "magnus = \<lparr>name = Some ''Magnus'', rating = None, title = Some ''BOT''\<rparr>"

definition bot_player :: player where
  "bot_player = \<lparr>name = Some ''lichess-bot'', rating = Some 2000, title = Some ''BOT''\<rparr>"

definition anonymous :: player where
  "anonymous = \<lparr>name = None, rating = None, title = None\<rparr>"

definition game_with :: "player \<Rightarrow> game" where
  "game_with opp = \<lparr>opponent = opp, me = bot_player, clock_initial = 60000, clock_increment = 1000\<rparr>"

definition uci_handle :: simple_engine where
  "uci_handle = \<lparr>calls = [], protocol_config = {''UCI_Opponent'', ''Hash''}, features = []\<rparr>"

definition uci_adapter :: uci_engine where
  "uci_adapter = \<lparr>engine = uci_handle, last_move_info = [], go_commands = PDict []\<rparr>"

definition xboard_handle :: "(string, feature_value) dict \<Rightarrow> simple_engine" where
  "xboard_handle fs = \<lparr>calls = [], protocol_config = {}, features = fs\<rparr>"

definition xboard_adapter :: "(string, feature_value) dict \<Rightarrow> xboard_engine" where
  "xboard_adapter fs =
     \<lparr>engine = xboard_handle fs, last_move_info = [], time_control_sent = False,
      minutes = None, seconds = None, inc = None\<rparr>"

section \<open>Entries of a statistics list\<close>

text \<open>
  The entry that one queried name contributes (none when the name is not a key of the
  info dictionary), and the test that a list holds an entry for a name: some element
  starts with the name, a colon and a space.
\<close>

definition stat_entry :: "info_dict \<Rightarrow> string \<Rightarrow> string list" where
  "stat_entry info stat =
     (case map_of info stat of None \<Rightarrow> [] | Some v \<Rightarrow> [stat @ '': '' @ info_str v])"

definition has_entry :: "string \<Rightarrow> string list \<Rightarrow> bool" where
  "has_entry stat entries = (\<exists>e \<in> set entries. take (length stat + 2) e = stat @ '': '')"

definition searched_info :: info_dict where
  "searched_info = [(''depth'', InfoInt 20), (''score'', InfoText ''PovScore(Cp(+35), WHITE)'')]"

text \<open>Engines for concrete runs: what \<open>popen_xboard\<close> and \<open>popen_uci\<close> return.\<close>

definition egt_engine :: popen where
  "egt_engine commands silent = xboard_handle [(''egt'', FStr ''nalimov,scorpio'')]"

definition plain_uci :: popen where
  "plain_uci commands silent = uci_handle"

section \<open>Searches on the handle\<close>

text \<open>A \<open>play\<close> call, as opposed to a line or a configuration sent to the engine.\<close>

fun is_play :: "engine_call \<Rightarrow> bool" where
  "is_play (Play b l p) = True"
| "is_play c = False"

text \<open>Values for concrete runs.\<close>

definition plain_xboard :: popen where
  "plain_xboard commands silent = xboard_handle []"

definition example_reply :: engine_reply where
  "example_reply cs = \<lparr>result_move = Some ''e7e5'', result_ponder = None, result_info = searched_info\<rparr>"

definition two_searches :: "search_args list" where
  "two_searches = [(''startpos moves e2e4'', 60000, 59000, 1000, 1000, False),
                   (''startpos moves e2e4 e7e5 g1f3'', 58500, 57000, 1000, 1000, True)]"

definition timed_adapter :: xboard_engine where
  "timed_adapter = xboard_set_time_control (xboard_adapter []) (game_with magnus)"

section \<open>Theorems\<close>

subsection \<open>The managed-option filter\<close>

lemma remove_managed_options_filter:
  "remove_managed_options im config = filter (\<lambda>(name, value). \<not> im name) config"
  unfolding remove_managed_options_def
  by (induction config) auto

lemma remove_managed_options_keys:
  "fst ` set (remove_managed_options im config) = {k \<in> fst ` set config. \<not> im k}"
  unfolding remove_managed_options_filter by force

lemma remove_managed_options_lookup:
  "map_of (remove_managed_options im config) k = (if im k then None else map_of config k)"
  unfolding remove_managed_options_filter
  by (induction config) auto

lemma remove_managed_options_twice:
  "remove_managed_options im (remove_managed_options im config) = remove_managed_options im config"
  unfolding remove_managed_options_filter by (induction config) auto

text \<open>
  Claim C3. For every option mapping, \<open>remove_managed_options\<close> returns the restriction of
  the mapping to the keys that are not managed: a managed key is absent from the result,
  every other key (in particular a name the classifier does not know) is kept with its
  value, the items keep their order, and filtering twice is the same as filtering once.
  The result is a new dictionary computed from the input, which is not modified.
\<close>

theorem remove_managed_options_restricts:
  "map_of (remove_managed_options is_managed config)
     = map_of config |` {name. \<not> is_managed name}
   \<and> (\<forall>name. is_managed name \<longrightarrow> name \<notin> fst ` set (remove_managed_options is_managed config))
   \<and> (\<forall>name. \<not> is_managed name \<longrightarrow>
         map_of (remove_managed_options is_managed config) name = map_of config name)
   \<and> remove_managed_options is_managed config = filter (\<lambda>item. \<not> is_managed (fst item)) config
   \<and> remove_managed_options is_managed (remove_managed_options is_managed config)
       = remove_managed_options is_managed config"
proof -
  have restr: "map_of (remove_managed_options is_managed config)
      = map_of config |` {name. \<not> is_managed name}"
    by (rule ext) (simp add: remove_managed_options_lookup restrict_map_def)
  have absent: "\<forall>name. is_managed name \<longrightarrow> name \<notin> fst ` set (remove_managed_options is_managed config)"
    by (simp add: remove_managed_options_keys)
  have kept: "\<forall>name. \<not> is_managed name \<longrightarrow>
      map_of (remove_managed_options is_managed config) name = map_of config name"
    by (simp add: remove_managed_options_lookup)
  have order: "remove_managed_options is_managed config
      = filter (\<lambda>item. \<not> is_managed (fst item)) config"
    by (simp add: remove_managed_options_filter case_prod_unfold)
  show ?thesis
    using restr absent kept order remove_managed_options_twice by blast
qed

theorem remove_managed_options_restricts_witness:
  "chess_is_managed ''Ponder'' \<and> \<not> chess_is_managed ''Hash''
   \<and> remove_managed_options chess_is_managed
         [(''Hash'', PInt 128), (''Ponder'', PBool True), (''Threads'', PInt 2)]
       = [(''Hash'', PInt 128), (''Threads'', PInt 2)]
   \<and> ''Ponder'' \<notin> fst ` set (remove_managed_options chess_is_managed
         [(''Hash'', PInt 128), (''Ponder'', PBool True), (''Threads'', PInt 2)])
   \<and> map_of (remove_managed_options chess_is_managed
         [(''Hash'', PInt 128), (''Ponder'', PBool True), (''Threads'', PInt 2)]) ''Hash''
       = Some (PInt 128)"
  using remove_managed_options_restricts
    [of chess_is_managed "[(''Hash'', PInt 128), (''Ponder'', PBool True), (''Threads'', PInt 2)]"]
  by (simp add: chess_is_managed_def lower_char_def)

subsection \<open>Calls on the handle\<close>

lemma calls_send_line: "calls (send_line l e) = calls e @ [SendLine l]"
  by (simp add: send_line_def)

lemma features_send_line: "features (send_line l e) = features e"
  by (simp add: send_line_def)

lemma calls_engine_configure: "calls (engine_configure opts e) = calls e @ [Configure opts]"
  by (simp add: engine_configure_def)

lemma SendLine_in_map: "SendLine l \<in> set (map SendLine ls) \<longleftrightarrow> l \<in> set ls"
  by auto

subsection \<open>Opponent information, UCI\<close>

text \<open>
  Claim C9. When the opponent's name is \<open>None\<close> or the empty string, \<open>get_opponent_info\<close>
  of the UCI adapter does nothing: no call reaches the engine and the adapter is the one
  it was, whether or not \<open>UCI_Opponent\<close> is in the engine's configuration.
\<close>

theorem uci_get_opponent_info_without_name:
  "name (opponent g) = None \<or> name (opponent g) = Some [] \<Longrightarrow> uci_get_opponent_info self g = self"
  by (auto simp: uci_get_opponent_info_def)

theorem uci_get_opponent_info_without_name_witness:
  "''UCI_Opponent'' \<in> protocol_config (engine uci_adapter)
   \<and> name (opponent (game_with (magnus\<lparr>name := Some []\<rparr>))) = Some []
   \<and> uci_get_opponent_info uci_adapter (game_with (magnus\<lparr>name := Some []\<rparr>)) = uci_adapter"
  using uci_get_opponent_info_without_name [of "game_with (magnus\<lparr>name := Some []\<rparr>)" uci_adapter]
  by (simp add: game_with_def magnus_def uci_adapter_def uci_handle_def)

text \<open>
  Claim C4, as stated, promises a configuration update for every game once the engine
  offers \<open>UCI_Opponent\<close>. With an opponent without a name nothing is sent.
\<close>

theorem uci_get_opponent_info_anonymous_sends_nothing:
  "''UCI_Opponent'' \<in> protocol_config (engine uci_adapter)
   \<and> calls (engine (uci_get_opponent_info uci_adapter (game_with (magnus\<lparr>name := None\<rparr>)))) = []"
  by (simp add: uci_get_opponent_info_def game_with_def magnus_def uci_adapter_def uci_handle_def)

text \<open>
  Claim C4, amended. For every game whose opponent has a non-empty name, when
  \<open>UCI_Opponent\<close> is in the engine's configuration, \<open>get_opponent_info\<close> makes one
  \<open>configure\<close> call and changes nothing else. Its value is title, rating, player type
  and name separated by single spaces: the title is \<open>none\<close> when it is absent or empty,
  the rating is \<open>none\<close> when it is absent, and the player type is \<open>computer\<close> exactly
  when the title is \<open>BOT\<close>, else \<open>human\<close>.
\<close>

theorem uci_get_opponent_info_value:
  assumes "name (opponent g) = Some nm" and "nm \<noteq> []"
    and "''UCI_Opponent'' \<in> protocol_config (engine self)"
  shows "uci_get_opponent_info self g =
      self\<lparr>engine := (engine self)\<lparr>calls := calls (engine self) @
         [Configure [(''UCI_Opponent'',
            PStr ((if title (opponent g) = None \<or> title (opponent g) = Some [] then ''none''
                   else the (title (opponent g)))
                  @ '' '' @ (case rating (opponent g) of None \<Rightarrow> ''none'' | Some r \<Rightarrow> str_int r)
                  @ '' '' @ (if title (opponent g) = Some ''BOT'' then ''computer'' else ''human'')
                  @ '' '' @ nm))]]\<rparr>\<rparr>"
  using assms
  by (auto simp: uci_get_opponent_info_def uci_opponent_value_def engine_configure_def Let_def
      split: option.splits)

theorem uci_get_opponent_info_value_witness:
  "name (opponent (game_with magnus)) = Some ''Magnus''
   \<and> ''UCI_Opponent'' \<in> protocol_config (engine uci_adapter)
   \<and> calls (engine (uci_get_opponent_info uci_adapter (game_with magnus)))
       = [Configure [(''UCI_Opponent'', PStr ''BOT none computer Magnus'')]]"
  using uci_get_opponent_info_value [of "game_with magnus" "''Magnus''" uci_adapter]
  by (simp add: game_with_def magnus_def uci_adapter_def uci_handle_def)

subsection \<open>Opponent information, XBoard\<close>

lemma calls_xboard_send_name:
  "calls (xboard_send_name g e) = calls e @ map SendLine (name_lines g (features e))"
  by (simp add: xboard_send_name_def name_lines_def calls_send_line split: option.splits)

lemma calls_xboard_send_rating:
  "calls (xboard_send_rating g e) = calls e @ map SendLine (rating_lines g)"
  by (simp add: xboard_send_rating_def rating_lines_def calls_send_line split: option.splits)

lemma calls_xboard_send_computer:
  "calls (xboard_send_computer g e) = calls e @ map SendLine (computer_lines g)"
  by (simp add: xboard_send_computer_def computer_lines_def calls_send_line)

lemma calls_xboard_get_opponent_info:
  "calls (engine (xboard_get_opponent_info self g)) =
     calls (engine self)
       @ map SendLine (name_lines g (features (engine self)) @ rating_lines g @ computer_lines g)"
  by (simp add: xboard_get_opponent_info_def calls_xboard_send_name calls_xboard_send_rating
      calls_xboard_send_computer)

lemma lines_sent_xboard_get_opponent_info:
  "lines_sent (engine self) (engine (xboard_get_opponent_info self g)) =
     map SendLine (name_lines g (features (engine self)) @ rating_lines g @ computer_lines g)"
  by (simp add: lines_sent_def calls_xboard_get_opponent_info)

lemma name_lines_kind:
  "l \<in> set (name_lines g fs) \<Longrightarrow> is_name_line l \<and> \<not> is_rating_line l \<and> l \<noteq> ''computer''"
  by (auto simp: name_lines_def name_line_def is_name_line_def is_rating_line_def
      split: option.splits if_splits)

lemma rating_lines_kind:
  "l \<in> set (rating_lines g) \<Longrightarrow> is_rating_line l \<and> \<not> is_name_line l \<and> l \<noteq> ''computer''"
  by (auto simp: rating_lines_def rating_line_def is_name_line_def is_rating_line_def
      split: option.splits)

lemma computer_lines_kind:
  "l \<in> set (computer_lines g) \<Longrightarrow> l = ''computer'' \<and> \<not> is_name_line l \<and> \<not> is_rating_line l"
  by (auto simp: computer_lines_def is_name_line_def is_rating_line_def split: if_splits)

lemma name_lines_nonempty:
  "name_lines g fs \<noteq> [] \<longleftrightarrow> str_truthy (name (opponent g)) \<and> name_feature fs"
  by (auto simp: name_lines_def str_truthy_def split: option.splits)

lemma rating_lines_nonempty:
  "rating_lines g \<noteq> [] \<longleftrightarrow> rating (me g) \<noteq> None \<and> rating (opponent g) \<noteq> None"
  by (auto simp: rating_lines_def split: option.splits)

lemma computer_lines_nonempty:
  "computer_lines g \<noteq> [] \<longleftrightarrow> title (opponent g) = Some ''BOT''"
  by (simp add: computer_lines_def)

lemma some_name_line_sent:
  "(\<exists>l. is_name_line l \<and> l \<in> set (name_lines g fs @ rating_lines g @ computer_lines g))
     \<longleftrightarrow> name_lines g fs \<noteq> []"
proof
  assume "\<exists>l. is_name_line l \<and> l \<in> set (name_lines g fs @ rating_lines g @ computer_lines g)"
  then obtain l where l: "is_name_line l"
    and "l \<in> set (name_lines g fs) \<or> l \<in> set (rating_lines g) \<or> l \<in> set (computer_lines g)"
    by auto
  then have "l \<in> set (name_lines g fs)"
    using rating_lines_kind [of l g] computer_lines_kind [of l g] by blast
  then show "name_lines g fs \<noteq> []" by auto
next
  assume "name_lines g fs \<noteq> []"
  then obtain l where "l \<in> set (name_lines g fs)" by (cases "name_lines g fs") auto
  then show "\<exists>l. is_name_line l \<and> l \<in> set (name_lines g fs @ rating_lines g @ computer_lines g)"
    using name_lines_kind [of l g fs] by auto
qed

lemma some_rating_line_sent:
  "(\<exists>l. is_rating_line l \<and> l \<in> set (name_lines g fs @ rating_lines g @ computer_lines g))
     \<longleftrightarrow> rating_lines g \<noteq> []"
proof
  assume "\<exists>l. is_rating_line l \<and> l \<in> set (name_lines g fs @ rating_lines g @ computer_lines g)"
  then obtain l where l: "is_rating_line l"
    and "l \<in> set (name_lines g fs) \<or> l \<in> set (rating_lines g) \<or> l \<in> set (computer_lines g)"
    by auto
  then have "l \<in> set (rating_lines g)"
    using name_lines_kind [of l g fs] computer_lines_kind [of l g] by blast
  then show "rating_lines g \<noteq> []" by auto
next
  assume "rating_lines g \<noteq> []"
  then obtain l where "l \<in> set (rating_lines g)" by (cases "rating_lines g") auto
  then show "\<exists>l. is_rating_line l \<and> l \<in> set (name_lines g fs @ rating_lines g @ computer_lines g)"
    using rating_lines_kind [of l g] by auto
qed

lemma computer_line_sent:
  "''computer'' \<in> set (name_lines g fs @ rating_lines g @ computer_lines g)
     \<longleftrightarrow> computer_lines g \<noteq> []"
proof
  assume "''computer'' \<in> set (name_lines g fs @ rating_lines g @ computer_lines g)"
  then have "''computer'' \<in> set (computer_lines g)"
    using name_lines_kind [of "''computer''" g fs] rating_lines_kind [of "''computer''" g] by auto
  then show "computer_lines g \<noteq> []" by auto
next
  assume "computer_lines g \<noteq> []"
  then show "''computer'' \<in> set (name_lines g fs @ rating_lines g @ computer_lines g)"
    by (simp add: computer_lines_def split: if_splits)
qed

text \<open>
  Claim C5, as stated, sends the name line exactly when the feature set allows a name. An
  engine without a \<open>name\<close> feature allows it, yet for an opponent without a name no line
  is sent.
\<close>

theorem xboard_get_opponent_info_anonymous_no_name_line:
  "name_feature (features (engine (xboard_adapter [])))
   \<and> lines_sent (engine (xboard_adapter []))
        (engine (xboard_get_opponent_info (xboard_adapter []) (game_with anonymous))) = []"
  unfolding lines_sent_xboard_get_opponent_info
  by (simp add: name_lines_def rating_lines_def computer_lines_def name_feature_def
      xboard_adapter_def xboard_handle_def game_with_def anonymous_def bot_player_def)

text \<open>
  Claim C5, amended. \<open>get_opponent_info\<close> of the XBoard adapter sends at most three lines,
  in the order name, rating, computer, and each is there or not by its own condition: a
  name line exactly when the opponent's name is non-empty and the feature set allows a
  name, a rating line exactly when the bot's and the opponent's rating are both present,
  and the line \<open>computer\<close> exactly when the opponent's title is \<open>BOT\<close>.
\<close>

theorem xboard_get_opponent_info_lines:
  "lines_sent (engine self) (engine (xboard_get_opponent_info self g)) =
     map SendLine (name_lines g (features (engine self)) @ rating_lines g @ computer_lines g)
   \<and> ((\<exists>l. is_name_line l \<and> SendLine l \<in> set (lines_sent (engine self) (engine (xboard_get_opponent_info self g))))
        \<longleftrightarrow> str_truthy (name (opponent g)) \<and> name_feature (features (engine self)))
   \<and> ((\<exists>l. is_rating_line l \<and> SendLine l \<in> set (lines_sent (engine self) (engine (xboard_get_opponent_info self g))))
        \<longleftrightarrow> rating (me g) \<noteq> None \<and> rating (opponent g) \<noteq> None)
   \<and> (SendLine ''computer'' \<in> set (lines_sent (engine self) (engine (xboard_get_opponent_info self g)))
        \<longleftrightarrow> title (opponent g) = Some ''BOT'')"
  unfolding lines_sent_xboard_get_opponent_info SendLine_in_map
    some_name_line_sent some_rating_line_sent computer_line_sent
    name_lines_nonempty rating_lines_nonempty computer_lines_nonempty
  by simp

theorem xboard_get_opponent_info_lines_witness:
  "lines_sent (engine (xboard_adapter [(''name'', FInt 1)]))
      (engine (xboard_get_opponent_info (xboard_adapter [(''name'', FInt 1)])
         (game_with (magnus\<lparr>rating := Some 2850\<rparr>))))
     = [SendLine ''name BOT Magnus'', SendLine ''rating 2000 2850'', SendLine ''computer'']
   \<and> lines_sent (engine (xboard_adapter [(''name'', FInt 1)]))
      (engine (xboard_get_opponent_info (xboard_adapter [(''name'', FInt 1)])
         (game_with (magnus\<lparr>rating := Some 2850, title := Some ''GM''\<rparr>))))
     = [SendLine ''name GM Magnus'', SendLine ''rating 2000 2850'']"
  using xboard_get_opponent_info_lines
      [of "xboard_adapter [(''name'', FInt 1)]" "game_with (magnus\<lparr>rating := Some 2850\<rparr>)"]
    xboard_get_opponent_info_lines
      [of "xboard_adapter [(''name'', FInt 1)]"
          "game_with (magnus\<lparr>rating := Some 2850, title := Some ''GM''\<rparr>)"]
  by (simp add: name_lines_def rating_lines_def computer_lines_def name_feature_def name_line_def
      rating_line_def xboard_adapter_def xboard_handle_def game_with_def magnus_def bot_player_def
      str_int_def str_nat.simps digit_char_def)

text \<open>
  Claim C10. For an opponent with a non-empty name, permission to send the name line
  fails open: when the feature set has no \<open>name\<close> entry the line is sent, and a name line
  is missing only when the feature set maps \<open>name\<close> to a false value (zero or the empty
  string).
\<close>

theorem xboard_name_line_fail_open:
  assumes "name (opponent g) = Some nm" and "nm \<noteq> []"
  shows "(map_of (features (engine self)) ''name'' = None \<longrightarrow>
            SendLine (name_line (opponent g) nm)
              \<in> set (lines_sent (engine self) (engine (xboard_get_opponent_info self g))))
      \<and> ((\<exists>l. is_name_line l \<and> SendLine l \<in> set (lines_sent (engine self) (engine (xboard_get_opponent_info self g))))
            \<longleftrightarrow> \<not> (\<exists>v. map_of (features (engine self)) ''name'' = Some v \<and> \<not> feature_truthy v))"
proof -
  let ?fs = "features (engine self)"
  have allowed: "name_feature ?fs \<longleftrightarrow> \<not> (\<exists>v. map_of ?fs ''name'' = Some v \<and> \<not> feature_truthy v)"
    by (auto simp: name_feature_def split: option.splits)
  have truthy: "str_truthy (name (opponent g))"
    using assms by (simp add: str_truthy_def)
  have nl: "name_lines g ?fs = (if name_feature ?fs then [name_line (opponent g) nm] else [])"
    using assms by (simp add: name_lines_def)
  have absent: "map_of ?fs ''name'' = None \<longrightarrow> name_line (opponent g) nm
      \<in> set (name_lines g ?fs @ rating_lines g @ computer_lines g)"
    unfolding nl by (simp add: name_feature_def)
  show ?thesis
    unfolding lines_sent_xboard_get_opponent_info SendLine_in_map some_name_line_sent
      name_lines_nonempty
    using absent allowed truthy by simp
qed

theorem xboard_name_line_fail_open_witness:
  "name (opponent (game_with magnus)) = Some ''Magnus''
   \<and> map_of (features (engine (xboard_adapter [(''ping'', FInt 1)]))) ''name'' = None
   \<and> SendLine ''name BOT Magnus''
       \<in> set (lines_sent (engine (xboard_adapter [(''ping'', FInt 1)]))
               (engine (xboard_get_opponent_info (xboard_adapter [(''ping'', FInt 1)]) (game_with magnus))))
   \<and> \<not> (\<exists>l. is_name_line l \<and> SendLine l
       \<in> set (lines_sent (engine (xboard_adapter [(''name'', FInt 0)]))
               (engine (xboard_get_opponent_info (xboard_adapter [(''name'', FInt 0)]) (game_with magnus)))))"
  using xboard_name_line_fail_open [of "game_with magnus" "''Magnus''" "xboard_adapter [(''ping'', FInt 1)]"]
    xboard_name_line_fail_open [of "game_with magnus" "''Magnus''" "xboard_adapter [(''name'', FInt 0)]"]
  by (simp add: name_line_def xboard_adapter_def xboard_handle_def game_with_def magnus_def)

subsection \<open>Statistics\<close>

lemma get_handler_stats_loop_entries:
  "get_handler_stats_loop info stats acc = acc @ concat (map (stat_entry info) stats)"
  by (induction stats arbitrary: acc) (auto simp: stat_entry_def split: option.splits)

lemma get_handler_stats_entries:
  "get_handler_stats info stats = concat (map (stat_entry info) stats)"
  by (simp add: get_handler_stats_def get_handler_stats_loop_entries)

lemma get_handler_stats_empty: "get_handler_stats [] stats = []"
  by (simp add: get_handler_stats_entries stat_entry_def)

lemma uci_has_entry:
  "stat \<in> set [''depth'', ''nps'', ''nodes'', ''score''] \<Longrightarrow>
     has_entry stat (get_handler_stats info [''depth'', ''nps'', ''nodes'', ''score''])
       \<longleftrightarrow> map_of info stat \<noteq> None"
  by (cases "map_of info ''depth''"; cases "map_of info ''nps''"; cases "map_of info ''nodes''";
      cases "map_of info ''score''")
    (auto simp: get_handler_stats_entries has_entry_def stat_entry_def)

lemma xboard_has_entry:
  "stat \<in> set [''depth'', ''nodes'', ''score''] \<Longrightarrow>
     has_entry stat (get_handler_stats info [''depth'', ''nodes'', ''score''])
       \<longleftrightarrow> map_of info stat \<noteq> None"
  by (cases "map_of info ''depth''"; cases "map_of info ''nodes''"; cases "map_of info ''score''")
    (auto simp: get_handler_stats_entries has_entry_def stat_entry_def)

text \<open>
  Claim C6. For every info dictionary of the last search, \<open>get_stats\<close> of either adapter
  returns, in the order of the queried names, one entry \<open>name: value\<close> for each queried
  name that is a key of the dictionary and nothing for a name that is not: the list has
  an entry for a queried name exactly when the name is a key. The queried names are
  depth, nps, nodes, score for the UCI adapter and depth, nodes, score for the XBoard
  adapter. The function is total, and on the empty dictionary the list is empty.
\<close>

theorem get_stats_only_present_keys:
  "uci_get_stats self
     = concat (map (stat_entry (last_move_info self)) [''depth'', ''nps'', ''nodes'', ''score''])
   \<and> xboard_get_stats xself
     = concat (map (stat_entry (last_move_info xself)) [''depth'', ''nodes'', ''score''])
   \<and> (\<forall>stat \<in> set [''depth'', ''nps'', ''nodes'', ''score''].
         has_entry stat (uci_get_stats self) \<longleftrightarrow> map_of (last_move_info self) stat \<noteq> None)
   \<and> (\<forall>stat \<in> set [''depth'', ''nodes'', ''score''].
         has_entry stat (xboard_get_stats xself) \<longleftrightarrow> map_of (last_move_info xself) stat \<noteq> None)
   \<and> (last_move_info self = [] \<longrightarrow> uci_get_stats self = [])
   \<and> (last_move_info xself = [] \<longrightarrow> xboard_get_stats xself = [])"
proof -
  have uci: "\<forall>stat \<in> set [''depth'', ''nps'', ''nodes'', ''score''].
      has_entry stat (uci_get_stats self) \<longleftrightarrow> map_of (last_move_info self) stat \<noteq> None"
    unfolding uci_get_stats_def using uci_has_entry by blast
  have xboard: "\<forall>stat \<in> set [''depth'', ''nodes'', ''score''].
      has_entry stat (xboard_get_stats xself) \<longleftrightarrow> map_of (last_move_info xself) stat \<noteq> None"
    unfolding xboard_get_stats_def using xboard_has_entry by blast
  have uci_empty: "last_move_info self = [] \<longrightarrow> uci_get_stats self = []"
    by (simp add: uci_get_stats_def get_handler_stats_empty)
  have xboard_empty: "last_move_info xself = [] \<longrightarrow> xboard_get_stats xself = []"
    by (simp add: xboard_get_stats_def get_handler_stats_empty)
  show ?thesis
    using uci xboard uci_empty xboard_empty
    by (simp add: uci_get_stats_def xboard_get_stats_def get_handler_stats_entries)
qed

theorem get_stats_only_present_keys_witness:
  "uci_get_stats (uci_adapter\<lparr>last_move_info := searched_info\<rparr>)
     = [''depth: 20'', ''score: PovScore(Cp(+35), WHITE)'']
   \<and> xboard_get_stats ((xboard_adapter [])\<lparr>last_move_info := searched_info\<rparr>)
     = [''depth: 20'', ''score: PovScore(Cp(+35), WHITE)'']
   \<and> \<not> has_entry ''nodes'' (uci_get_stats (uci_adapter\<lparr>last_move_info := searched_info\<rparr>))
   \<and> \<not> has_entry ''nodes'' (xboard_get_stats ((xboard_adapter [])\<lparr>last_move_info := searched_info\<rparr>))
   \<and> has_entry ''depth'' (xboard_get_stats ((xboard_adapter [])\<lparr>last_move_info := searched_info\<rparr>))
   \<and> uci_get_stats uci_adapter = []"
  using get_stats_only_present_keys
      [of "uci_adapter\<lparr>last_move_info := searched_info\<rparr>"
          "(xboard_adapter [])\<lparr>last_move_info := searched_info\<rparr>"]
    get_stats_only_present_keys [of uci_adapter "xboard_adapter []"]
  by (simp add: stat_entry_def has_entry_def searched_info_def uci_adapter_def xboard_adapter_def
      str_int_def str_nat.simps digit_char_def)

subsection \<open>Construction of the XBoard adapter\<close>

text \<open>
  When every tablebase type that the engine advertises has a path in the caller's
  mapping, the loop gives each advertised type its \<open>egtpath\<close> entry and leaves the other
  options alone; when one advertised type has no path it raises KeyError; and an engine
  without an \<open>egt\<close> feature gets the options without the \<open>egtpath\<close> block.
\<close>

lemma set_egtpath_options_lookup:
  "\<forall>t \<in> set egt_types. map_of d t \<noteq> None \<Longrightarrow>
     \<exists>options'. set_egtpath_options (PDict d) egt_types options = Inr options'
       \<and> (\<forall>t \<in> set egt_types. map_of options' (''egtpath '' @ t) = map_of d t)
       \<and> (\<forall>k. k \<notin> (\<lambda>t. ''egtpath '' @ t) ` set egt_types \<longrightarrow> map_of options' k = map_of options k)"
proof (induction egt_types arbitrary: options)
  case Nil
  then show ?case by simp
next
  case (Cons t ts)
  from Cons.prems obtain p where p: "map_of d t = Some p" by auto
  from Cons.prems have rest: "\<forall>t \<in> set ts. map_of d t \<noteq> None" by simp
  from Cons.IH [OF rest, of "AList.update (''egtpath '' @ t) p options"]
  obtain options' where
    run: "set_egtpath_options (PDict d) ts (AList.update (''egtpath '' @ t) p options) = Inr options'"
    and hit: "\<forall>u \<in> set ts. map_of options' (''egtpath '' @ u) = map_of d u"
    and miss: "\<forall>k. k \<notin> (\<lambda>u. ''egtpath '' @ u) ` set ts \<longrightarrow>
        map_of options' k = map_of (AList.update (''egtpath '' @ t) p options) k"
    by blast
  have first: "map_of options' (''egtpath '' @ t) = map_of d t"
  proof (cases "t \<in> set ts")
    case True
    with hit show ?thesis by blast
  next
    case False
    then have "''egtpath '' @ t \<notin> (\<lambda>u. ''egtpath '' @ u) ` set ts" by auto
    with miss show ?thesis by (simp add: update_conv' p)
  qed
  have other: "\<forall>k. k \<notin> (\<lambda>u. ''egtpath '' @ u) ` set (t # ts) \<longrightarrow> map_of options' k = map_of options k"
    using miss by (auto simp: update_conv')
  show ?case using run first hit other p by simp
qed

lemma set_egtpath_options_missing:
  "t \<in> set egt_types \<Longrightarrow> map_of d t = None \<Longrightarrow>
     \<exists>u \<in> set egt_types. set_egtpath_options (PDict d) egt_types options = Inl (KeyError u)"
proof (induction egt_types arbitrary: options)
  case Nil
  then show ?case by simp
next
  case (Cons a as)
  show ?case
  proof (cases "map_of d a")
    case None
    then show ?thesis by simp
  next
    case (Some p)
    with Cons.prems have "t \<in> set as" by auto
    from Cons.IH [OF this Cons.prems(2), of "AList.update (''egtpath '' @ a) p options"] Some
    show ?thesis by auto
  qed
qed

lemma xboard_init_without_egt:
  "map_of (features (popen_xboard commands (truthy silence_stderr))) ''egt'' = None \<Longrightarrow>
     xboard_init popen_xboard commands options silence_stderr =
       Inr \<lparr>engine = engine_configure (AList.delete ''egtpath'' options)
                      (popen_xboard commands (truthy silence_stderr)),
            last_move_info = [], time_control_sent = False,
            minutes = None, seconds = None, inc = None\<rparr>"
  by (simp add: xboard_init_def egt_types_from_engine_def Let_def)

text \<open>
  Claim C7 says that construction forwards \<open>egtpath <type>\<close> for a type exactly when the
  engine advertises it, without error. For an engine that advertises \<open>nalimov,scorpio\<close>
  and a caller who gives a path for \<open>nalimov\<close> only, \<open>egt_paths[egt_type]\<close> raises
  KeyError for \<open>scorpio\<close>: no adapter is constructed and nothing is forwarded, not even
  the entry for \<open>nalimov\<close>.
\<close>

theorem xboard_init_unlisted_egt_type_raises:
  "xboard_init egt_engine [''./engines/crafty'']
     [(''egtpath'', PDict [(''nalimov'', PStr ''/tb/nalimov'')])] (PBool False)
   = Inl (KeyError ''scorpio'')"
  by (simp add: xboard_init_def egt_engine_def xboard_handle_def egt_types_from_engine_def
      dict_get_def or_empty_dict_def Let_def)

subsection \<open>create\_engine\<close>

text \<open>
  Claim C8 says that a configuration without \<open>engine.protocol\<close> gives the UCI adapter.
  There \<open>cfg.get("protocol")\<close> is \<open>None\<close>, the class chosen is \<open>UCIEngine\<close>, and the next
  line evaluates \<open>None + "_options"\<close>, which raises TypeError: no adapter is constructed,
  whatever the engine and the classifier are.
\<close>

theorem create_engine_without_protocol_raises:
  "create_engine str_of is_managed popen_uci popen_xboard
     [(''engine'', PDict [(''dir'', PStr ''./engines''), (''name'', PStr ''stockfish'')])]
   = Inl TypeError"
  by (simp add: create_engine_def engine_path_of_def engine_commands_def options_key_def
      dict_get_def Let_def)

text \<open>
  With a string for \<open>engine.protocol\<close> the XBoard adapter is constructed exactly for
  \<open>xboard\<close> and the UCI adapter for any other string, from the command vector and the
  filtered options block.
\<close>

lemma create_engine_with_protocol:
  assumes "map_of config ''engine'' = Some (PDict c)"
    and "map_of c ''dir'' = Some (PStr d)" and "map_of c ''name'' = Some (PStr n)"
    and "map_of c ''protocol'' = Some (PStr p)"
    and "engine_commands str_of (os_path_join d n) (dict_get c ''engine_options'' PNone) = Inr commands"
    and "or_empty_dict (dict_get c (p @ ''_options'') (PDict [])) = PDict block"
  shows "create_engine str_of is_managed popen_uci popen_xboard config =
      (if p = ''xboard''
       then map_sum id XBoardEngine
              (xboard_init popen_xboard commands (remove_managed_options is_managed block)
                 (dict_get c ''silence_stderr'' (PBool False)))
       else Inr (UCIEngine
              (uci_init popen_uci commands (remove_managed_options is_managed block)
                 (dict_get c ''silence_stderr'' (PBool False)))))"
  using assms
  by (simp add: create_engine_def engine_path_of_def options_key_def dict_get_def Let_def)

subsection \<open>The time control of the XBoard adapter\<close>

lemma lines_sent_append: "calls after = calls before @ cs \<Longrightarrow> lines_sent before after = cs"
  by (simp add: lines_sent_def)

lemma xboard_send_time_set:
  assumes "minutes self = Some m" and "seconds self = Some s" and "inc self = Some i"
  shows "xboard_send_time self =
      (Inr (), self\<lparr>engine := send_line (level_line m s i) (engine self), time_control_sent := True\<rparr>)"
  using assms by (simp add: xboard_send_time_def)

lemma xboard_send_time_unset:
  "minutes self = None \<Longrightarrow> xboard_send_time self = (Inl (AttributeError ''minutes''), self)"
  by (simp add: xboard_send_time_def)

lemma search_when_sent:
  assumes "time_control_sent self"
  shows "\<exists>plays. calls (engine (snd (xboard_search_with_ponder reply self b wt bt wi bi p)))
            = calls (engine self) @ plays
         \<and> list_all is_play plays
         \<and> time_control_sent (snd (xboard_search_with_ponder reply self b wt bt wi bi p))"
  using assms
  by (cases "xboard_search_limit wt bt")
    (auto simp: xboard_search_with_ponder_def engine_play_def Let_def)

lemma search_when_unsent:
  assumes "\<not> time_control_sent self"
    and "minutes self = Some m" and "seconds self = Some s" and "inc self = Some i"
  shows "\<exists>plays. calls (engine (snd (xboard_search_with_ponder reply self b wt bt wi bi p)))
            = calls (engine self) @ SendLine (level_line m s i) # plays
         \<and> list_all is_play plays
         \<and> time_control_sent (snd (xboard_search_with_ponder reply self b wt bt wi bi p))"
  using assms
  by (cases "xboard_search_limit wt bt")
    (auto simp: xboard_search_with_ponder_def xboard_send_time_set send_line_def engine_play_def Let_def)

lemma search_all_when_sent:
  "time_control_sent self \<Longrightarrow>
     \<exists>plays. calls (engine (search_all reply self searches)) = calls (engine self) @ plays
       \<and> list_all is_play plays"
proof (induction searches arbitrary: self)
  case Nil
  then show ?case by simp
next
  case (Cons a rest)
  obtain b wt bt wi bi p where a: "a = (b, wt, bt, wi, bi, p)" by (cases a)
  let ?next = "snd (xboard_search_with_ponder reply self b wt bt wi bi p)"
  from search_when_sent [OF Cons.prems, of reply b wt bt wi bi p]
  obtain plays where one: "calls (engine ?next) = calls (engine self) @ plays"
    and plays: "list_all is_play plays" and sent: "time_control_sent ?next"
    by blast
  from Cons.IH [OF sent]
  obtain more where rest: "calls (engine (search_all reply ?next rest)) = calls (engine ?next) @ more"
    and more: "list_all is_play more"
    by blast
  have "calls (engine (search_all reply self (a # rest))) = calls (engine self) @ (plays @ more)"
    using one rest by (simp add: a)
  moreover have "list_all is_play (plays @ more)"
    using plays more by simp
  ultimately show ?case by blast
qed

lemma search_all_when_unsent:
  assumes "\<not> time_control_sent self"
    and "minutes self = Some m" and "seconds self = Some s" and "inc self = Some i"
    and "searches \<noteq> []"
  shows "\<exists>plays. calls (engine (search_all reply self searches))
            = calls (engine self) @ SendLine (level_line m s i) # plays
         \<and> list_all is_play plays"
proof -
  from assms(5) obtain a rest where searches: "searches = a # rest" by (cases searches) auto
  obtain b wt bt wi bi p where a: "a = (b, wt, bt, wi, bi, p)" by (cases a)
  let ?next = "snd (xboard_search_with_ponder reply self b wt bt wi bi p)"
  from search_when_unsent [OF assms(1-4), of reply b wt bt wi bi p]
  obtain plays where one: "calls (engine ?next) = calls (engine self) @ SendLine (level_line m s i) # plays"
    and plays: "list_all is_play plays" and sent: "time_control_sent ?next"
    by blast
  from search_all_when_sent [OF sent, of reply rest]
  obtain more where rest: "calls (engine (search_all reply ?next rest)) = calls (engine ?next) @ more"
    and more: "list_all is_play more"
    by blast
  have "calls (engine (search_all reply self searches))
      = calls (engine self) @ SendLine (level_line m s i) # (plays @ more)"
    using one rest by (simp add: searches a)
  moreover have "list_all is_play (plays @ more)"
    using plays more by simp
  ultimately show ?thesis by blast
qed

lemma xboard_init_flag: "xboard_init popen_xboard commands options silence = Inr self \<Longrightarrow> \<not> time_control_sent self"
  by (auto simp: xboard_init_def Let_def split: sum.splits)

text \<open>
  Claim C2, amended. For every XBoard adapter: \<open>time_control_sent\<close> is false after
  construction; on an adapter whose time control has been set by \<open>set_time_control\<close>,
  \<open>send_time\<close> sends the level command and sets the flag, \<open>search_with_ponder\<close> sends the
  level command exactly when the flag is false at the call, and in every non-empty
  sequence of \<open>search_with_ponder\<close> calls that starts with the flag false the level
  command is sent exactly once, before the first \<open>play\<close>: the calls that the sequence
  adds to the handle are the level line followed by \<open>play\<close> calls only.
\<close>

theorem level_sent_once:
  assumes "minutes self = Some m" and "seconds self = Some s" and "inc self = Some i"
  shows "(\<forall>fresh. xboard_init popen_xboard commands options silence = Inr fresh \<longrightarrow> \<not> time_control_sent fresh)
    \<and> time_control_sent (snd (xboard_send_time self))
    \<and> lines_sent (engine self) (engine (snd (xboard_send_time self))) = [SendLine (level_line m s i)]
    \<and> filter (\<lambda>c. \<not> is_play c)
         (lines_sent (engine self) (engine (snd (xboard_search_with_ponder reply self b wt bt wi bi p))))
       = (if time_control_sent self then [] else [SendLine (level_line m s i)])
    \<and> (\<not> time_control_sent self \<and> searches \<noteq> [] \<longrightarrow>
         (\<exists>plays. lines_sent (engine self) (engine (search_all reply self searches))
             = SendLine (level_line m s i) # plays \<and> list_all is_play plays))"
proof -
  have fresh: "\<forall>fresh. xboard_init popen_xboard commands options silence = Inr fresh \<longrightarrow> \<not> time_control_sent fresh"
    using xboard_init_flag by blast
  have sets: "time_control_sent (snd (xboard_send_time self))"
    by (simp add: xboard_send_time_set [OF assms])
  have sends: "lines_sent (engine self) (engine (snd (xboard_send_time self))) = [SendLine (level_line m s i)]"
    by (simp add: xboard_send_time_set [OF assms] lines_sent_def send_line_def)
  have gate: "filter (\<lambda>c. \<not> is_play c)
         (lines_sent (engine self) (engine (snd (xboard_search_with_ponder reply self b wt bt wi bi p))))
       = (if time_control_sent self then [] else [SendLine (level_line m s i)])"
  proof (cases "time_control_sent self")
    case True
    from search_when_sent [OF True, of reply b wt bt wi bi p]
    obtain plays where "calls (engine (snd (xboard_search_with_ponder reply self b wt bt wi bi p)))
        = calls (engine self) @ plays" and "list_all is_play plays" by blast
    then show ?thesis using True by (simp add: lines_sent_def list_all_iff)
  next
    case False
    from search_when_unsent [OF False assms, of reply b wt bt wi bi p]
    obtain plays where "calls (engine (snd (xboard_search_with_ponder reply self b wt bt wi bi p)))
        = calls (engine self) @ SendLine (level_line m s i) # plays" and "list_all is_play plays" by blast
    then show ?thesis using False by (simp add: lines_sent_def list_all_iff)
  qed
  have once: "\<not> time_control_sent self \<and> searches \<noteq> [] \<longrightarrow>
         (\<exists>plays. lines_sent (engine self) (engine (search_all reply self searches))
             = SendLine (level_line m s i) # plays \<and> list_all is_play plays)"
  proof (intro impI, elim conjE)
    assume unsent: "\<not> time_control_sent self" and some: "searches \<noteq> []"
    from search_all_when_unsent [OF unsent assms some, of reply]
    obtain plays where "calls (engine (search_all reply self searches))
        = calls (engine self) @ SendLine (level_line m s i) # plays" and "list_all is_play plays" by blast
    then show "\<exists>plays. lines_sent (engine self) (engine (search_all reply self searches))
             = SendLine (level_line m s i) # plays \<and> list_all is_play plays"
      by (simp add: lines_sent_def)
  qed
  show ?thesis using fresh sets sends gate once by blast
qed

lemma truediv_examples:
  "py_truediv 60000 1000 = Inr 60" "py_truediv 59000 1000 = Inr 59"
  "py_truediv 58500 1000 = Inr (117 / 2)" "py_truediv 57000 1000 = Inr 57"
  by (simp_all add: py_truediv_def nearest_double_def floor_log2_def round_half_even_def compute_bitlen)

text \<open>
  Claim C2, as stated, holds for any sequence of searches on any adapter. On an adapter
  as \<open>__init__\<close> leaves it, without a call of \<open>set_time_control\<close>, the attributes
  \<open>minutes\<close>, \<open>seconds\<close> and \<open>inc\<close> do not exist: \<open>send_time\<close> raises AttributeError before
  it sends anything and before it sets the flag, so each search of the sequence raises
  and the level command is never sent.
\<close>

theorem fresh_adapter_search_raises:
  "(case xboard_init plain_xboard [''./engines/crafty''] [] (PBool False) of
      Inl err \<Rightarrow> False
    | Inr self \<Rightarrow>
        fst (xboard_search_with_ponder example_reply self ''startpos moves e2e4'' 60000 59000 1000 1000 False)
          = Inl (AttributeError ''minutes'')
        \<and> lines_sent (engine self) (engine (search_all example_reply self two_searches)) = []
        \<and> \<not> time_control_sent (search_all example_reply self two_searches))"
  by (simp add: xboard_init_def plain_xboard_def xboard_handle_def egt_types_from_engine_def
      dict_get_def or_empty_dict_def Let_def xboard_search_with_ponder_def xboard_send_time_def
      two_searches_def lines_sent_def engine_configure_def)


theorem level_sent_once_witness:
  "minutes timed_adapter = Some 1 \<and> seconds timed_adapter = Some 0 \<and> inc timed_adapter = Some 1
   \<and> \<not> time_control_sent timed_adapter \<and> two_searches \<noteq> []
   \<and> lines_sent (engine timed_adapter) (engine (search_all example_reply timed_adapter two_searches))
       = [SendLine ''level 0 1:0 1'',
          Play ''startpos moves e2e4''
            (Limit\<lparr>white_clock := Some (PyFloat 60), black_clock := Some (PyFloat 59)\<rparr>) False,
          Play ''startpos moves e2e4 e7e5 g1f3''
            (Limit\<lparr>white_clock := Some (PyFloat (117 / 2)), black_clock := Some (PyFloat 57)\<rparr>) True]"
  using level_sent_once [where self = timed_adapter and m = 1 and s = 0 and i = 1
      and reply = example_reply and searches = two_searches]
  by (simp add: timed_adapter_def xboard_set_time_control_def xboard_adapter_def xboard_handle_def
      game_with_def magnus_def two_searches_def lines_sent_def xboard_search_with_ponder_def
      xboard_send_time_def xboard_search_limit_def truediv_examples engine_play_def send_line_def
      level_line_def str_int_def str_nat.simps digit_char_def Let_def)

end
